theory Spec2Isabelle
  imports Complex_Main
begin

section \<open>Data model (types.ts)\<close>

text \<open>
  A browser \<open>File\<close>: its name and its immutable content. \<open>file.size\<close> is the
  number of bytes of the content, and \<open>file.arrayBuffer()\<close> yields the content.
\<close>

type_synonym bytes = "nat list"

record File =
  name_f :: string
  data_f :: bytes

definition size_f :: "File \<Rightarrow> nat" where
  "size_f f = length (data_f f)"

text \<open>\<open>PageInProcessing\<close> and \<open>LoadedPdfFile\<close> of types.ts, field by field.\<close>

record PageInProcessing =
  id_p :: string
  sourceFileId :: string
  originalPageIndex :: int

record LoadedPdfFile =
  id_l :: string
  file_l :: File
  pageCount :: nat

section \<open>The PDF library at its interface\<close>

text \<open>
  A parsed \<open>PDFDocument\<close> is the list of its pages; the type of a page is left open.
  \<open>PDFDocument.load\<close> is a parameter \<open>load\<close> of every operation that calls it: it
  maps the bytes to the document, or to \<open>None\<close> when it throws. \<open>save\<close> is a
  parameter in the same way. Exceptions are values of \<open>exn\<close>.
\<close>

datatype exn = LoadError | CopyError | SaveError | TypeError | CanvasError | RenderError | EmbedError

text \<open>
  \<open>copyPages(src, indices)\<close> reads \<open>src.getPages()[k]\<close> for each requested
  index and throws on an index outside the document (the page is \<open>undefined\<close>).
\<close>

fun copyPages :: "'pg list \<Rightarrow> int list \<Rightarrow> exn + 'pg list" where
  "copyPages src [] = Inr []"
| "copyPages src (k # ks) =
     (if 0 \<le> k \<and> k < int (length src)
      then (case copyPages src ks of Inl e \<Rightarrow> Inl e | Inr ps \<Rightarrow> Inr (src ! nat k # ps))
      else Inl CopyError)"

section \<open>Decimal text of a number, as a template literal prints it\<close>

definition digit :: "nat \<Rightarrow> char" where
  "digit d = ''0123456789'' ! d"

function show_nat :: "nat \<Rightarrow> string" where
  "show_nat n = (if n < 10 then [digit n] else show_nat (n div 10) @ [digit (n mod 10)])"
  by pat_completeness auto
termination
  by (relation "measure id") auto

section \<open>PdfMerger (unnamed/part_000)\<close>

record MergerState =
  loadedFiles :: "LoadedPdfFile list"
  pages :: "PageInProcessing list"
  isProcessing :: bool
  error :: "string option"

subsection \<open>handleFilesAccepted\<close>

text \<open>
  The inner loop \<open>for (let i = 0; i < pdfDoc.getPageCount(); i++) newPages.push(...)\<close>,
  counting \<open>i\<close> upwards to \<open>n\<close>.
\<close>

definition pageIdOf :: "string \<Rightarrow> nat \<Rightarrow> string" where
  "pageIdOf fileId i = fileId @ ''-page-'' @ show_nat i"

function pushPages :: "string \<Rightarrow> nat \<Rightarrow> nat \<Rightarrow> PageInProcessing list \<Rightarrow> PageInProcessing list" where
  "pushPages fileId n i newPages =
     (if i < n
      then pushPages fileId n (Suc i)
             (newPages @ [\<lparr>id_p = pageIdOf fileId i,
                           sourceFileId = fileId,
                           originalPageIndex = int i + 1\<rparr>])
      else newPages)"
  by pat_completeness auto
termination
  by (relation "measure (\<lambda>(fileId, n, i, newPages). n - i)") auto

text \<open>
  The two template literals of the loop: the file id
  \<open>`${file.name}-${Date.now()}`\<close> and the message for a file that does not parse.
\<close>

definition fileIdOf :: "File \<Rightarrow> nat \<Rightarrow> string" where
  "fileIdOf file t = name_f file @ ''-'' @ show_nat t"

definition couldNotProcess :: "File \<Rightarrow> string" where
  "couldNotProcess file =
     ''Could not process '' @ name_f file @ ''. It may be corrupted or protected.''"

text \<open>
  The loop over \<open>newFiles\<close>. \<open>now k\<close> is what \<open>Date.now()\<close> returns while the
  \<open>k\<close>-th file of the loop is handled. A file that fails to parse sets the error
  message and the loop goes on with the next file.
\<close>

function (sequential) loadLoop :: "(bytes \<Rightarrow> 'pg list option) \<Rightarrow> (nat \<Rightarrow> nat) \<Rightarrow> nat \<Rightarrow> File list \<Rightarrow>
    LoadedPdfFile list \<times> PageInProcessing list \<times> string option \<Rightarrow>
    LoadedPdfFile list \<times> PageInProcessing list \<times> string option" where
  "loadLoop load now k [] acc = acc"
| "loadLoop load now k (file # rest) (newLoadedFiles, newPages, err) =
     (case load (data_f file) of
        None \<Rightarrow>
          loadLoop load now (Suc k) rest (newLoadedFiles, newPages, Some (couldNotProcess file))
      | Some pdfDoc \<Rightarrow>
          loadLoop load now (Suc k) rest
            (newLoadedFiles @
               [\<lparr>id_l = fileIdOf file (now k), file_l = file, pageCount = length pdfDoc\<rparr>],
             pushPages (fileIdOf file (now k)) (length pdfDoc) 0 newPages,
             err))"
  by pat_completeness auto
termination
  by (relation "measure (\<lambda>(load, now, k, files, acc). length files)") auto

definition handleFilesAccepted :: "(bytes \<Rightarrow> 'pg list option) \<Rightarrow> (nat \<Rightarrow> nat) \<Rightarrow>
    MergerState \<Rightarrow> File list \<Rightarrow> MergerState" where
  "handleFilesAccepted load now st acceptedFiles =
     (let currentFileNames = set (map (\<lambda>f. name_f (file_l f)) (loadedFiles st));
          newFiles = filter (\<lambda>f. name_f f \<notin> currentFileNames) acceptedFiles
      in if newFiles = [] then st\<lparr>error := None\<rparr>
         else (case loadLoop load now 0 newFiles (loadedFiles st, pages st, None) of
                 (newLoadedFiles, newPages, err) \<Rightarrow>
                   \<lparr>loadedFiles = newLoadedFiles, pages = newPages,
                    isProcessing = False, error = err\<rparr>))"

subsection \<open>removePage\<close>

definition removePage :: "string \<Rightarrow> PageInProcessing list \<Rightarrow> PageInProcessing list" where
  "removePage pageIdToRemove currentPages = filter (\<lambda>p. id_p p \<noteq> pageIdToRemove) currentPages"

subsection \<open>handleDrop\<close>

text \<open>
  \<open>Array.prototype.splice(start, deleteCount, ...items)\<close> for a non-negative start:
  the start is clamped to the length, the deletion to what is left; the result is the
  removed elements and the array afterwards.
\<close>

definition splice_js :: "'a list \<Rightarrow> nat \<Rightarrow> nat \<Rightarrow> 'a list \<Rightarrow> 'a list \<times> 'a list" where
  "splice_js xs start deleteCount items =
     (let s = min start (length xs);
          dc = min deleteCount (length xs - s)
      in (take dc (drop s xs), take s xs @ items @ drop (s + dc) xs))"

text \<open>
  \<open>handleDrop\<close> on the array and the two refs \<open>dragItem.current\<close> and
  \<open>dragOverItem.current\<close> (positions of rendered pages, or \<open>null\<close>). It returns the
  array the component holds afterwards and the two refs. An element \<open>None\<close> of the
  result is JavaScript's \<open>undefined\<close>: \<open>splice(from, 1)[0]\<close> is \<open>undefined\<close>
  when \<open>from\<close> is outside the array, and it is inserted all the same.
\<close>

definition handleDrop :: "'a list \<Rightarrow> nat option \<Rightarrow> nat option \<Rightarrow>
    'a option list \<times> nat option \<times> nat option" where
  "handleDrop pgs dragItem dragOverItem =
     (case (dragItem, dragOverItem) of
        (Some from, Some to) \<Rightarrow>
          (let (removed, newPages) = splice_js (map Some pgs) from 1 [];
               dragItemContent = (case removed of [] \<Rightarrow> None | x # _ \<Rightarrow> x);
               (_, newPages') = splice_js newPages to 0 [dragItemContent]
           in (newPages', None, None))
      | _ \<Rightarrow> (map Some pgs, dragItem, dragOverItem))"

subsection \<open>handleMerge\<close>

text \<open>
  The cache \<open>sourcePdfs\<close> is the object literal \<open>{}\<close>. Its own properties are a
  map from source file id to parsed document. Reading \<open>sourcePdfs[key]\<close> gives the
  own property if there is one; otherwise what every object inherits from
  \<open>Object.prototype\<close> under that key (a function, or the prototype itself for
  \<open>__proto__\<close>: truthy, and not a document); otherwise \<open>undefined\<close>.
\<close>

definition objectPrototypeKeys :: "string list" where
  "objectPrototypeKeys =
     [''constructor'', ''__defineGetter__'', ''__defineSetter__'', ''hasOwnProperty'',
      ''__lookupGetter__'', ''__lookupSetter__'', ''isPrototypeOf'',
      ''propertyIsEnumerable'', ''toString'', ''valueOf'', ''__proto__'',
      ''toLocaleString'']"

datatype 'pg property = Undefined | Inherited | Document "'pg list"

definition readProperty :: "(string \<rightharpoonup> 'pg list) \<Rightarrow> string \<Rightarrow> 'pg property" where
  "readProperty obj key =
     (case obj key of
        Some doc \<Rightarrow> Document doc
      | None \<Rightarrow> if key \<in> set objectPrototypeKeys then Inherited else Undefined)"

text \<open>
  The accumulator of the loop of \<open>handleMerge\<close>: the document under construction,
  the own properties of the cache object, and \<open>parsed\<close>, the source file ids for
  which \<open>PDFDocument.load\<close> has been called during this build, in call order.
\<close>

record 'pg MergeAcc =
  mergedPdf :: "'pg list"
  sourcePdfs :: "string \<rightharpoonup> 'pg list"
  parsed :: "string list"

text \<open>
  The block guarded by \<open>if (!sourcePdfs[page.sourceFileId])\<close>: it is entered when
  the read gives \<open>undefined\<close>, and then the assignment creates an own property.
\<close>

definition ensureLoaded :: "(bytes \<Rightarrow> 'pg list option) \<Rightarrow> LoadedPdfFile list \<Rightarrow>
    'pg MergeAcc \<Rightarrow> PageInProcessing \<Rightarrow> 'pg MergeAcc \<times> exn option" where
  "ensureLoaded load lfs acc page =
     (case readProperty (sourcePdfs acc) (sourceFileId page) of
        Undefined \<Rightarrow>
          (case find (\<lambda>f. id_l f = sourceFileId page) lfs of
             None \<Rightarrow> (acc, None)
           | Some loadedFile \<Rightarrow>
               (case load (data_f (file_l loadedFile)) of
                  None \<Rightarrow> (acc\<lparr>parsed := parsed acc @ [sourceFileId page]\<rparr>, Some LoadError)
                | Some doc \<Rightarrow>
                    (acc\<lparr>sourcePdfs := (sourcePdfs acc)(sourceFileId page \<mapsto> doc),
                         parsed := parsed acc @ [sourceFileId page]\<rparr>, None)))
      | Inherited \<Rightarrow> (acc, None)
      | Document doc \<Rightarrow> (acc, None))"

text \<open>
  One iteration of \<open>for (const page of pages)\<close>. Under \<open>if (sourcePdf)\<close> an
  inherited value is truthy as well: it is handed to \<open>copyPages\<close>, which rejects
  what is not a document with a type error.
\<close>

definition mergePage :: "(bytes \<Rightarrow> 'pg list option) \<Rightarrow> LoadedPdfFile list \<Rightarrow>
    'pg MergeAcc \<Rightarrow> PageInProcessing \<Rightarrow> 'pg MergeAcc \<times> exn option" where
  "mergePage load lfs acc page =
     (case ensureLoaded load lfs acc page of
        (acc1, Some e) \<Rightarrow> (acc1, Some e)
      | (acc1, None) \<Rightarrow>
          (case readProperty (sourcePdfs acc1) (sourceFileId page) of
             Undefined \<Rightarrow> (acc1, None)
           | Inherited \<Rightarrow> (acc1, Some TypeError)
           | Document sourcePdf \<Rightarrow>
               (case copyPages sourcePdf [originalPageIndex page - 1] of
                  Inl e \<Rightarrow> (acc1, Some e)
                | Inr [] \<Rightarrow> (acc1, Some TypeError)
                | Inr (copiedPage # _) \<Rightarrow>
                    (acc1\<lparr>mergedPdf := mergedPdf acc1 @ [copiedPage]\<rparr>, None))))"

function (sequential) mergeLoop :: "(bytes \<Rightarrow> 'pg list option) \<Rightarrow> LoadedPdfFile list \<Rightarrow>
    'pg MergeAcc \<Rightarrow> PageInProcessing list \<Rightarrow> 'pg MergeAcc \<times> exn option" where
  "mergeLoop load lfs acc [] = (acc, None)"
| "mergeLoop load lfs acc (page # rest) =
     (case mergePage load lfs acc page of
        (acc1, Some e) \<Rightarrow> (acc1, Some e)
      | (acc1, None) \<Rightarrow> mergeLoop load lfs acc1 rest)"
  by pat_completeness auto
termination
  by (relation "measure (\<lambda>(load, lfs, acc, ps). length ps)") auto

text \<open>
  The body of the \<open>try\<close> up to the call of \<open>save\<close>: the accumulator at the end of
  the loop (or at the throw), and the exception if one was thrown.
\<close>

definition mergeBuild :: "(bytes \<Rightarrow> 'pg list option) \<Rightarrow> LoadedPdfFile list \<Rightarrow>
    PageInProcessing list \<Rightarrow> 'pg MergeAcc \<times> exn option" where
  "mergeBuild load lfs pgs =
     mergeLoop load lfs \<lparr>mergedPdf = [], sourcePdfs = Map.empty, parsed = []\<rparr> pgs"

definition noPagesToMerge :: string where
  "noPagesToMerge = ''No pages to merge. Please add some PDF files.''"

definition mergeFailed :: string where
  "mergeFailed = ''An error occurred while merging the PDFs.''"

text \<open>
  \<open>handleMerge\<close> returns the component state afterwards and the download it
  triggered (file name and bytes), if any.
\<close>

definition handleMerge :: "(bytes \<Rightarrow> 'pg list option) \<Rightarrow> ('pg list \<Rightarrow> bytes option) \<Rightarrow>
    MergerState \<Rightarrow> MergerState \<times> (string \<times> bytes) option" where
  "handleMerge load save st =
     (if length (pages st) = 0 then (st\<lparr>error := Some noPagesToMerge\<rparr>, None)
      else (case mergeBuild load (loadedFiles st) (pages st) of
              (acc, Some e) \<Rightarrow> (st\<lparr>isProcessing := False, error := Some mergeFailed\<rparr>, None)
            | (acc, None) \<Rightarrow>
                (case save (mergedPdf acc) of
                   None \<Rightarrow> (st\<lparr>isProcessing := False, error := Some mergeFailed\<rparr>, None)
                 | Some mergedPdfBytes \<Rightarrow>
                     (st\<lparr>isProcessing := False, error := None\<rparr>,
                      Some (''merged.pdf'', mergedPdfBytes)))))"

section \<open>PdfSplitter (components/PdfCompressor.tsx, second component)\<close>

record SplitterState =
  loadedFile :: "LoadedPdfFile option"
  pages_s :: "PageInProcessing list"
  selectedPages :: "string set"
  isProcessing_s :: bool
  error_s :: "string option"

definition deleteSelectedPages :: "SplitterState \<Rightarrow> SplitterState" where
  "deleteSelectedPages st =
     st\<lparr>pages_s := filter (\<lambda>p. id_p p \<notin> selectedPages st) (pages_s st), selectedPages := {}\<rparr>"

text \<open>
  The body of the \<open>try\<close> of \<open>handleCreatePdf\<close> up to the call of \<open>save\<close>: the
  source is parsed, all kept indices are copied in one call, and the copies are added
  one by one.
\<close>

definition splitBuild :: "(bytes \<Rightarrow> 'pg list option) \<Rightarrow> LoadedPdfFile \<Rightarrow>
    PageInProcessing list \<Rightarrow> exn + 'pg list" where
  "splitBuild load lf pgs =
     (case load (data_f (file_l lf)) of
        None \<Rightarrow> Inl LoadError
      | Some sourcePdf \<Rightarrow>
          (let pageIndicesToKeep = map (\<lambda>p. originalPageIndex p - 1) pgs
           in case copyPages sourcePdf pageIndicesToKeep of
                Inl e \<Rightarrow> Inl e
              | Inr copiedPages \<Rightarrow> Inr (foldl (\<lambda>newPdf page. newPdf @ [page]) [] copiedPages)))"

definition noPagesToCreate :: string where
  "noPagesToCreate = ''No pages to create a PDF from.''"

definition createFailed :: string where
  "createFailed = ''An error occurred while creating the new PDF.''"

definition handleCreatePdf :: "(bytes \<Rightarrow> 'pg list option) \<Rightarrow> ('pg list \<Rightarrow> bytes option) \<Rightarrow>
    SplitterState \<Rightarrow> SplitterState \<times> (string \<times> bytes) option" where
  "handleCreatePdf load save st =
     (case loadedFile st of
        None \<Rightarrow> (st\<lparr>error_s := Some noPagesToCreate\<rparr>, None)
      | Some lf \<Rightarrow>
          (if length (pages_s st) = 0 then (st\<lparr>error_s := Some noPagesToCreate\<rparr>, None)
           else (case splitBuild load lf (pages_s st) of
                   Inl e \<Rightarrow> (st\<lparr>isProcessing_s := False, error_s := Some createFailed\<rparr>, None)
                 | Inr newPdf \<Rightarrow>
                     (case save newPdf of
                        None \<Rightarrow>
                          (st\<lparr>isProcessing_s := False, error_s := Some createFailed\<rparr>, None)
                      | Some newPdfBytes \<Rightarrow>
                          (st\<lparr>isProcessing_s := False, error_s := None\<rparr>,
                           Some (''split-'' @ name_f (file_l lf), newPdfBytes))))))"

section \<open>PdfCompressor (src/components/PdfCompressor.tsx)\<close>

text \<open>
  JavaScript numbers that are not integers are modelled as reals: the literals denote
  their decimal values and the rounding of the arithmetic is left out. The entries of
  \<open>COMPRESSION_LEVELS\<close> carry a label as well; it is not ASCII and no handler reads
  it, so the record has the two numeric fields only.
\<close>

record CompressionLevel =
  quality :: real
  scale :: real

definition COMPRESSION_LEVELS :: "CompressionLevel list" where
  "COMPRESSION_LEVELS = [\<lparr>quality = 0.7, scale = 0.9\<rparr>, \<lparr>quality = 0.8, scale = 1.0\<rparr>]"

text \<open>An array read \<open>xs[i]\<close>: \<open>None\<close> is \<open>undefined\<close>.\<close>

definition at_index :: "'a list \<Rightarrow> nat \<Rightarrow> 'a option" where
  "at_index xs i = (if i < length xs then Some (xs ! i) else None)"

record Viewport =
  width_v :: real
  height_v :: real

text \<open>
  An output page: the size given to \<open>addPage\<close> and the images drawn on it, each with
  the options given to \<open>drawImage\<close>.
\<close>

record 'img Draw =
  image_d :: 'img
  x_d :: real
  y_d :: real
  width_d :: real
  height_d :: real

record 'img OutPage =
  width_o :: real
  height_o :: real
  drawn :: "'img Draw list"

text \<open>
  The values given to \<open>setProgress\<close>. The texts are Japanese; each constructor
  stands for one of them: \<open>Cleared\<close> for the empty string, \<open>Preparing\<close> for the
  text set before parsing, \<open>Processing i n\<close> for the template literal that starts
  \<open>`${i} / ${totalPages}\<close> and says that this page is being processed, and
  \<open>Finishing\<close> for the text set before serialisation. The error message of the
  \<open>catch\<close> block is Japanese as well: \<open>CompressFailed\<close>.
\<close>

datatype Progress = Cleared | Preparing | Processing nat nat | Finishing

datatype CompressMessage = CompressFailed

text \<open>
  The observable effects of a run in their order: every call of \<open>setProgress\<close>, and
  \<open>PageAppended i\<close> when iteration \<open>i\<close> has added its page and drawn the image
  on it.
\<close>

datatype Event = SetProgress Progress | PageAppended nat

text \<open>
  The result of \<open>((originalSize - compressedSize) / originalSize) * 100\<close>: a number,
  or what JavaScript's division gives for a zero divisor.
\<close>

datatype jsnum = Num real | NegInfinity | NaN

definition reductionOf :: "nat \<Rightarrow> nat \<Rightarrow> jsnum" where
  "reductionOf originalSize compressedSize =
     (if originalSize = 0 then (if compressedSize = 0 then NaN else NegInfinity)
      else Num (((real originalSize - real compressedSize) / real originalSize) * 100))"

fun negative :: "jsnum \<Rightarrow> bool" where
  "negative (Num r) = (r < 0)"
| "negative NegInfinity = True"
| "negative NaN = False"

record CompressionResult =
  originalSize :: nat
  compressedSize :: nat
  reduction :: jsnum
  fileName :: string
  data_r :: bytes

record CompressorState =
  file_c :: "File option"
  isProcessing_c :: bool
  result_c :: "CompressionResult option"
  error_c :: "CompressMessage option"
  progress :: Progress
  compressionLevel :: nat

text \<open>
  The rendering engine (pdf.js), the canvas and the writing library (pdf-lib) at their
  interface, as parameters. An operation that can throw or reject returns an option.
  \<open>createCanvas h w\<close> is \<open>document.createElement('canvas')\<close> followed by the
  assignments of \<open>canvas.height\<close> and \<open>canvas.width\<close>; \<open>hasContext\<close> tells
  whether \<open>getContext('2d')\<close> gave a context; \<open>render\<close> gives the painted canvas.
\<close>

record ('doc, 'pg, 'cv, 'img) Engine =
  getDocument :: "bytes \<Rightarrow> 'doc option"
  numPages :: "'doc \<Rightarrow> nat"
  getPage :: "'doc \<Rightarrow> nat \<Rightarrow> 'pg option"
  getViewport :: "'pg \<Rightarrow> real \<Rightarrow> Viewport"
  createCanvas :: "real \<Rightarrow> real \<Rightarrow> 'cv"
  hasContext :: "'cv \<Rightarrow> bool"
  render :: "'pg \<Rightarrow> 'cv \<Rightarrow> Viewport \<Rightarrow> 'cv option"
  toDataURL :: "'cv \<Rightarrow> string \<Rightarrow> real \<Rightarrow> string"
  embedJpg :: "string \<Rightarrow> 'img option"
  save_e :: "'img OutPage list \<Rightarrow> bytes option"

record 'img CompressAcc =
  newPdfDoc :: "'img OutPage list"
  trace :: "Event list"

text \<open>The body of the loop of \<open>handleCompress\<close> for page number \<open>i\<close>.\<close>

definition compressPage :: "('doc, 'pg, 'cv, 'img) Engine \<Rightarrow> CompressionLevel option \<Rightarrow> 'doc \<Rightarrow>
    nat \<Rightarrow> nat \<Rightarrow> 'img CompressAcc \<Rightarrow> 'img CompressAcc \<times> exn option" where
  "compressPage eng settings pdfViewerDoc totalPages i acc =
     (let acc1 = acc\<lparr>trace := trace acc @ [SetProgress (Processing i totalPages)]\<rparr>
      in case getPage eng pdfViewerDoc i of
           None \<Rightarrow> (acc1, Some RenderError)
         | Some page \<Rightarrow>
             (case settings of
                None \<Rightarrow> (acc1, Some TypeError)
              | Some s \<Rightarrow>
                  (let viewport = getViewport eng page (1.5 * scale s);
                       canvas = createCanvas eng (height_v viewport) (width_v viewport)
                   in if \<not> hasContext eng canvas then (acc1, Some CanvasError)
                      else (case render eng page canvas viewport of
                              None \<Rightarrow> (acc1, Some RenderError)
                            | Some painted \<Rightarrow>
                                (case embedJpg eng (toDataURL eng painted ''image/jpeg'' (quality s)) of
                                   None \<Rightarrow> (acc1, Some EmbedError)
                                 | Some jpgImage \<Rightarrow>
                                     (acc1\<lparr>newPdfDoc := newPdfDoc acc1 @
                                              [\<lparr>width_o = width_v viewport,
                                                height_o = height_v viewport,
                                                drawn = [\<lparr>image_d = jpgImage, x_d = 0, y_d = 0,
                                                          width_d = width_v viewport,
                                                          height_d = height_v viewport\<rparr>]\<rparr>],
                                           trace := trace acc1 @ [PageAppended i]\<rparr>,
                                      None))))))"

text \<open>\<open>for (let i = 1; i <= totalPages; i++)\<close>, stopped by the first exception.\<close>

function compressLoop :: "('doc, 'pg, 'cv, 'img) Engine \<Rightarrow> CompressionLevel option \<Rightarrow> 'doc \<Rightarrow>
    nat \<Rightarrow> nat \<Rightarrow> 'img CompressAcc \<Rightarrow> 'img CompressAcc \<times> exn option" where
  "compressLoop eng settings pdfViewerDoc totalPages i acc =
     (if i \<le> totalPages
      then (case compressPage eng settings pdfViewerDoc totalPages i acc of
              (acc1, Some e) \<Rightarrow> (acc1, Some e)
            | (acc1, None) \<Rightarrow> compressLoop eng settings pdfViewerDoc totalPages (Suc i) acc1)
      else (acc, None))"
  by pat_completeness auto
termination
  by (relation "measure (\<lambda>(eng, settings, doc, totalPages, i, acc). Suc totalPages - i)") auto

text \<open>What \<open>catch\<close> and \<open>finally\<close> leave in the state after an exception.\<close>

definition compressFailed :: "CompressorState \<Rightarrow> CompressorState" where
  "compressFailed st =
     st\<lparr>isProcessing_c := False, result_c := None, error_c := Some CompressFailed,
        progress := Cleared\<rparr>"

text \<open>
  The body of the \<open>try\<close> from the creation of the new document to the end of the
  loop: the accumulator at the end of the loop (or at the throw), and the exception if
  one was thrown. \<open>setProgress\<close> has been called once before, with the preparing
  text.
\<close>

definition compressBuild :: "('doc, 'pg, 'cv, 'img) Engine \<Rightarrow> CompressorState \<Rightarrow> 'doc \<Rightarrow>
    'img CompressAcc \<times> exn option" where
  "compressBuild eng st pdfViewerDoc =
     (let totalPages = numPages eng pdfViewerDoc;
          settings = at_index COMPRESSION_LEVELS (compressionLevel st)
      in compressLoop eng settings pdfViewerDoc totalPages 1
           \<lparr>newPdfDoc = [], trace = [SetProgress Preparing]\<rparr>)"

text \<open>
  \<open>handleCompress\<close> returns the component state afterwards and the effects of the
  run in their order.
\<close>

definition handleCompress :: "('doc, 'pg, 'cv, 'img) Engine \<Rightarrow> CompressorState \<Rightarrow>
    CompressorState \<times> Event list" where
  "handleCompress eng st =
     (case file_c st of
        None \<Rightarrow> (st, [])
      | Some file \<Rightarrow>
          (case getDocument eng (data_f file) of
             None \<Rightarrow> (compressFailed st, [SetProgress Preparing, SetProgress Cleared])
           | Some pdfViewerDoc \<Rightarrow>
               (case compressBuild eng st pdfViewerDoc of
                  (acc, Some e) \<Rightarrow> (compressFailed st, trace acc @ [SetProgress Cleared])
                | (acc, None) \<Rightarrow>
                    (case save_e eng (newPdfDoc acc) of
                       None \<Rightarrow>
                         (compressFailed st,
                          trace acc @ [SetProgress Finishing, SetProgress Cleared])
                     | Some compressedBytes \<Rightarrow>
                         (st\<lparr>isProcessing_c := False,
                             result_c := Some \<lparr>originalSize = size_f file,
                                                compressedSize = length compressedBytes,
                                                reduction = reductionOf (size_f file)
                                                              (length compressedBytes),
                                                fileName = ''compressed-'' @ name_f file,
                                                data_r = compressedBytes\<rparr>,
                             error_c := None,
                             progress := Cleared\<rparr>,
                          trace acc @ [SetProgress Finishing, SetProgress Cleared])))))"

text \<open>
  The result panel with its success banner is rendered under \<open>{result && (...)}\<close>:
  whenever a result is set.
\<close>

definition showsSuccess :: "CompressorState \<Rightarrow> bool" where
  "showsSuccess st = (result_c st \<noteq> None)"

section \<open>Notions of the specification\<close>

text \<open>The sequence without its element at position \<open>i\<close>.\<close>

definition remove_nth :: "nat \<Rightarrow> 'a list \<Rightarrow> 'a list" where
  "remove_nth i xs = take i xs @ drop (Suc i) xs"

text \<open>
  The page a reference stands for. \<open>sourcePageOf doc p\<close> is the page of \<open>doc\<close> at
  the 1-based \<open>originalPageIndex\<close> of \<open>p\<close>, if the index is within the document.
  \<open>resolves lfs p\<close> says that the source file id of \<open>p\<close> is the id of a loaded
  file, and \<open>sourcePage load lfs p\<close> is the page of that file's document.
\<close>

definition sourcePageOf :: "'pg list \<Rightarrow> PageInProcessing \<Rightarrow> 'pg option" where
  "sourcePageOf doc p =
     (if 1 \<le> originalPageIndex p \<and> originalPageIndex p \<le> int (length doc)
      then Some (doc ! nat (originalPageIndex p - 1)) else None)"

definition resolves :: "LoadedPdfFile list \<Rightarrow> PageInProcessing \<Rightarrow> bool" where
  "resolves lfs p = (find (\<lambda>f. id_l f = sourceFileId p) lfs \<noteq> None)"

definition sourcePage :: "(bytes \<Rightarrow> 'pg list option) \<Rightarrow> LoadedPdfFile list \<Rightarrow>
    PageInProcessing \<Rightarrow> 'pg option" where
  "sourcePage load lfs p =
     (case find (\<lambda>f. id_l f = sourceFileId p) lfs of
        None \<Rightarrow> None
      | Some lf \<Rightarrow>
          (case load (data_f (file_l lf)) of
             None \<Rightarrow> None
           | Some doc \<Rightarrow> sourcePageOf doc p))"

text \<open>
  A reference whose source file id is not a property name that every object inherits.
  Every id the merger creates is such a key: it ends in the digits of the timestamp.
\<close>

definition plain_key :: "PageInProcessing \<Rightarrow> bool" where
  "plain_key p = (sourceFileId p \<notin> set objectPrototypeKeys)"




section \<open>A session with two loaded files\<close>

text \<open>
  File \<open>a\<close> has three pages and file \<open>b\<close> has two; a page is the text written on
  it, and serialising a document gives one byte per page.
\<close>

definition ex_load :: "bytes \<Rightarrow> string list option" where
  "ex_load b = (if b = [1] then Some [''A1'', ''A2'', ''A3'']
                else if b = [2] then Some [''B1'', ''B2''] else None)"

definition ex_save :: "string list \<Rightarrow> bytes option" where
  "ex_save doc = Some (map length doc)"

definition ex_files :: "LoadedPdfFile list" where
  "ex_files = [\<lparr>id_l = ''a-1'', file_l = \<lparr>name_f = ''a'', data_f = [1]\<rparr>, pageCount = 3\<rparr>,
               \<lparr>id_l = ''b-2'', file_l = \<lparr>name_f = ''b'', data_f = [2]\<rparr>, pageCount = 2\<rparr>]"

definition ex_page :: "string \<Rightarrow> nat \<Rightarrow> PageInProcessing" where
  "ex_page fileId i =
     \<lparr>id_p = pageIdOf fileId i, sourceFileId = fileId, originalPageIndex = int i + 1\<rparr>"

definition ex_interleaved :: "PageInProcessing list" where
  "ex_interleaved = [ex_page ''a-1'' 0, ex_page ''b-2'' 0, ex_page ''a-1'' 1,
                     ex_page ''b-2'' 1, ex_page ''a-1'' 2]"

definition ex_dangling :: "PageInProcessing list" where
  "ex_dangling = [ex_page ''a-1'' 0, ex_page ''gone-3'' 0, ex_page ''a-1'' 1]"

definition ex_merger :: "PageInProcessing list \<Rightarrow> MergerState" where
  "ex_merger pgs = \<lparr>loadedFiles = ex_files, pages = pgs, isProcessing = False, error = None\<rparr>"

definition ex_splitter :: "PageInProcessing list \<Rightarrow> SplitterState" where
  "ex_splitter pgs = \<lparr>loadedFile = Some (hd ex_files), pages_s = pgs, selectedPages = {},
                       isProcessing_s = False, error_s = None\<rparr>"

section \<open>Loading: the pages a file contributes, and a batch with a repeated name\<close>

text \<open>The number of pages a file contributes: those of its document, none if it fails to parse.\<close>

definition pagesIn :: "(bytes \<Rightarrow> 'pg list option) \<Rightarrow> File \<Rightarrow> nat" where
  "pagesIn load f = (case load (data_f f) of None \<Rightarrow> 0 | Some doc \<Rightarrow> length doc)"

text \<open>A fresh session, and a batch of two different files with the same name.\<close>

definition ex_empty :: MergerState where
  "ex_empty = \<lparr>loadedFiles = [], pages = [], isProcessing = False, error = None\<rparr>"

definition ex_same_name :: "File list" where
  "ex_same_name = [\<lparr>name_f = ''a'', data_f = [1]\<rparr>, \<lparr>name_f = ''a'', data_f = [2]\<rparr>]"


section \<open>Notions of the specification for the rasterising build\<close>

text \<open>
  What the specification says of one output page of the rasterising build:
  \<open>is_raster_of eng s page out\<close> holds when the canvas has a drawing context and
  \<open>out\<close> is sized to the viewport of \<open>page\<close> at 1.5 times the scale of the profile
  \<open>s\<close> and carries one image, the JPEG encoding at the profile's quality of the page
  rendered into that viewport, drawn at the origin over the full width and height.
  \<open>raster_at\<close> says it of page number \<open>i\<close> of a document under the selected
  profile; it holds of no output page when a step for that page fails.
\<close>

definition is_raster_of :: "('doc, 'pg, 'cv, 'img) Engine \<Rightarrow> CompressionLevel \<Rightarrow> 'pg \<Rightarrow>
    'img OutPage \<Rightarrow> bool" where
  "is_raster_of eng s page out =
     (let viewport = getViewport eng page (1.5 * scale s);
          canvas = createCanvas eng (height_v viewport) (width_v viewport)
      in hasContext eng canvas \<and>
         (case render eng page canvas viewport of
            None \<Rightarrow> False
          | Some painted \<Rightarrow>
              (case embedJpg eng (toDataURL eng painted ''image/jpeg'' (quality s)) of
                 None \<Rightarrow> False
               | Some jpgImage \<Rightarrow>
                   out = \<lparr>width_o = width_v viewport, height_o = height_v viewport,
                          drawn = [\<lparr>image_d = jpgImage, x_d = 0, y_d = 0,
                                    width_d = width_v viewport,
                                    height_d = height_v viewport\<rparr>]\<rparr>)))"

definition raster_at :: "('doc, 'pg, 'cv, 'img) Engine \<Rightarrow> CompressionLevel option \<Rightarrow> 'doc \<Rightarrow>
    nat \<Rightarrow> 'img OutPage \<Rightarrow> bool" where
  "raster_at eng settings doc i out =
     (case settings of
        None \<Rightarrow> False
      | Some s \<Rightarrow> (case getPage eng doc i of None \<Rightarrow> False | Some page \<Rightarrow> is_raster_of eng s page out))"

text \<open>
  The effects of one iteration that completes, and the page reports \<open>(i, N)\<close> among
  the effects of a run.
\<close>

definition page_events :: "nat \<Rightarrow> nat \<Rightarrow> Event list" where
  "page_events totalPages i = [SetProgress (Processing i totalPages), PageAppended i]"



section \<open>A rendering engine for examples\<close>

text \<open>
  A file's first byte is the number of pages of its document; a page is its number,
  600 by 800 at scale 1; the data URL names the mime type and the page; serialising
  gives a header byte and three bytes per page.
\<close>

definition ex_engine :: "(nat, nat, nat, string) Engine" where
  "ex_engine =
     \<lparr>getDocument = (\<lambda>b. case b of [] \<Rightarrow> None | n # _ \<Rightarrow> Some n),
      numPages = (\<lambda>doc. doc),
      getPage = (\<lambda>doc i. if 1 \<le> i \<and> i \<le> doc then Some i else None),
      getViewport = (\<lambda>page s. \<lparr>width_v = 600 * s, height_v = 800 * s\<rparr>),
      createCanvas = (\<lambda>h w. 0),
      hasContext = (\<lambda>canvas. True),
      render = (\<lambda>page canvas viewport. Some page),
      toDataURL = (\<lambda>canvas mime q. mime @ '':'' @ [digit canvas]),
      embedJpg = (\<lambda>url. Some url),
      save_e = (\<lambda>doc. Some (7 # concat (map (\<lambda>p. [1, 2, 3]) doc)))\<rparr>"

definition ex_compressor :: "nat \<Rightarrow> CompressorState" where
  "ex_compressor n =
     \<lparr>file_c = Some \<lparr>name_f = ''a'', data_f = [n]\<rparr>, isProcessing_c = False, result_c = None,
      error_c = None, progress = Cleared, compressionLevel = 0\<rparr>"

section \<open>Properties of the page collection\<close>

lemma removePage_absent: "pid \<notin> set (map id_p ps) \<Longrightarrow> removePage pid ps = ps"
  by (induction ps) (auto simp: removePage_def)

text \<open>
  C8. \<open>removePage\<close> is total and idempotent: removing an id that no page of the
  working set has leaves the sequence (and so its length) unchanged, and removing the
  same id twice gives what removing it once gives.
\<close>

theorem removePage_idempotent_total:
  "(pid \<notin> set (map id_p ps) \<longrightarrow>
      removePage pid ps = ps \<and> length (removePage pid ps) = length ps)
   \<and> removePage pid (removePage pid ps) = removePage pid ps"
  by (simp add: removePage_absent) (simp add: removePage_def)

theorem removePage_idempotent_total_witness:
  "''c'' \<notin> set (map id_p [\<lparr>id_p = ''a'', sourceFileId = ''f'', originalPageIndex = 1\<rparr>,
                            \<lparr>id_p = ''b'', sourceFileId = ''f'', originalPageIndex = 2\<rparr>])
   \<and> removePage ''c'' [\<lparr>id_p = ''a'', sourceFileId = ''f'', originalPageIndex = 1\<rparr>,
                        \<lparr>id_p = ''b'', sourceFileId = ''f'', originalPageIndex = 2\<rparr>]
       = [\<lparr>id_p = ''a'', sourceFileId = ''f'', originalPageIndex = 1\<rparr>,
          \<lparr>id_p = ''b'', sourceFileId = ''f'', originalPageIndex = 2\<rparr>]
   \<and> removePage ''a''
         (removePage ''a'' [\<lparr>id_p = ''a'', sourceFileId = ''f'', originalPageIndex = 1\<rparr>,
                            \<lparr>id_p = ''b'', sourceFileId = ''f'', originalPageIndex = 2\<rparr>])
       = [\<lparr>id_p = ''b'', sourceFileId = ''f'', originalPageIndex = 2\<rparr>]"
  using removePage_idempotent_total [of "''c''"
      "[\<lparr>id_p = ''a'', sourceFileId = ''f'', originalPageIndex = 1\<rparr>,
        \<lparr>id_p = ''b'', sourceFileId = ''f'', originalPageIndex = 2\<rparr>]"]
  by (simp add: removePage_def)

lemma splice_remove1:
  "i < length xs \<Longrightarrow> splice_js xs i (Suc 0) [] = ([xs ! i], take i xs @ drop (Suc i) xs)"
  by (simp add: splice_js_def Let_def min_absorb1 min_absorb2 take_Suc_conv_app_nth
        Cons_nth_drop_Suc [symmetric])

lemma splice_insert1:
  "snd (splice_js xs t 0 [v]) = take (min t (length xs)) xs @ [v] @ drop (min t (length xs)) xs"
  by (simp add: splice_js_def Let_def)

lemma length_remove_nth: "i < length xs \<Longrightarrow> length (remove_nth i xs) = length xs - 1"
  by (simp add: remove_nth_def)

lemma handleDrop_eq:
  assumes "from < length pgs"
  shows "handleDrop pgs (Some from) (Some to) =
     (map Some (take (min to (length pgs - 1)) (remove_nth from pgs) @ [pgs ! from] @
                drop (min to (length pgs - 1)) (remove_nth from pgs)), None, None)"
proof -
  have r: "splice_js (map Some pgs) from (Suc 0) [] =
      ([Some (pgs ! from)], map Some (remove_nth from pgs))"
    using assms splice_remove1 [of "from" "map Some pgs"]
    by (simp add: remove_nth_def take_map drop_map)
  have i: "snd (splice_js (map Some (remove_nth from pgs)) to 0 [Some (pgs ! from)]) =
      map Some (take (min to (length pgs - 1)) (remove_nth from pgs) @ [pgs ! from] @
                drop (min to (length pgs - 1)) (remove_nth from pgs))"
    using assms
    by (simp only: splice_insert1 length_map length_remove_nth take_map drop_map map_append
          list.map)
  show ?thesis
    using i by (simp add: handleDrop_def r case_prod_beta)
qed

lemma insert_at_props:
  assumes "t \<le> length rest"
  shows "length (take t rest @ [x] @ drop t rest) = Suc (length rest)"
    and "(take t rest @ [x] @ drop t rest) ! t = x"
    and "remove_nth t (take t rest @ [x] @ drop t rest) = rest"
  using assms by (simp_all add: remove_nth_def nth_append min_absorb2)

text \<open>
  C3. A drop moves the page at position \<open>from\<close> (any position of the working set) to
  the target position \<open>to\<close>: the page is removed first and inserted into the shortened
  sequence at \<open>to\<close>, clamped to the length of that sequence. Afterwards the working
  set has its old length, the moved page sits at the clamped target position, and the
  other pages are in their old relative order: taking the moved page out again gives
  the sequence that taking it out of the old working set gives.
\<close>

theorem handleDrop_stable_move:
  assumes "from < length pgs"
  shows "\<exists>ys. handleDrop pgs (Some from) (Some to) = (map Some ys, None, None)
           \<and> ys = take (min to (length pgs - 1)) (remove_nth from pgs) @ [pgs ! from] @
                  drop (min to (length pgs - 1)) (remove_nth from pgs)
           \<and> length ys = length pgs
           \<and> ys ! (min to (length pgs - 1)) = pgs ! from
           \<and> remove_nth (min to (length pgs - 1)) ys = remove_nth from pgs"
proof -
  let ?rest = "remove_nth from pgs"
  let ?t = "min to (length pgs - 1)"
  have t: "?t \<le> length ?rest" using assms by (simp add: length_remove_nth)
  show ?thesis
    using handleDrop_eq [OF assms, of to] insert_at_props [OF t, of "pgs ! from"] assms
    by (simp add: length_remove_nth)
qed

theorem handleDrop_stable_move_witness:
  "(2::nat) < length [10, 20, 30, 40::nat]
   \<and> handleDrop [10, 20, 30, 40::nat] (Some 2) (Some 0) =
       ([Some 30, Some 10, Some 20, Some 40], None, None)"
  using handleDrop_stable_move [of 2 "[10, 20, 30, 40::nat]" 0]
  by (simp add: remove_nth_def)

section \<open>Properties of the structural-copy build\<close>




lemma readProperty_Undefined: "readProperty obj key = Undefined \<Longrightarrow> obj key = None"
  by (simp add: readProperty_def split: option.splits if_splits)

lemma readProperty_Some: "obj key = Some doc \<Longrightarrow> readProperty obj key = Document doc"
  by (simp add: readProperty_def)


lemma mergePage_inherited:
  assumes "sourceFileId p \<in> set objectPrototypeKeys" "sourcePdfs acc (sourceFileId p) = None"
  shows "mergePage load lfs acc p = (acc, Some TypeError)"
  using assms by (simp add: mergePage_def ensureLoaded_def readProperty_def)




























lemmas ex_defs = ex_load_def ex_save_def ex_files_def ex_page_def ex_interleaved_def
  ex_dangling_def ex_merger_def ex_splitter_def

lemmas merge_defs = mergeBuild_def mergePage_def ensureLoaded_def handleMerge_def
  sourcePage_def sourcePageOf_def resolves_def splitBuild_def handleCreatePdf_def
  readProperty_def objectPrototypeKeys_def plain_key_def





text \<open>
  A source file id that is an inherited property name is not skipped: the read of the
  cache gives the inherited value, and the copy throws.
\<close>

lemma handleMerge_inherited_key:
  "handleMerge ex_load ex_save (ex_merger [ex_page ''a-1'' 0, ex_page ''constructor'' 0]) =
     (ex_merger [ex_page ''a-1'' 0, ex_page ''constructor'' 0]\<lparr>error := Some mergeFailed\<rparr>, None)"
  by (simp add: ex_defs merge_defs)




section \<open>Properties of loading\<close>

lemma pushPages_eq:
  "pushPages fileId n i newPages =
     newPages @ map (\<lambda>j. \<lparr>id_p = pageIdOf fileId j, sourceFileId = fileId,
                            originalPageIndex = int j + 1\<rparr>) [i..<n]"
proof (induction fileId n i newPages rule: pushPages.induct)
  case (1 fileId n i newPages)
  show ?case
  proof (cases "i < n")
    case True
    with 1 show ?thesis by (subst pushPages.simps) (simp add: upt_conv_Cons)
  next
    case False
    then show ?thesis by (subst pushPages.simps) simp
  qed
qed

lemma indices_from_one: "map (\<lambda>j. int j + 1) [0..<n] = map int [1..<Suc n]"
  by (induction n) simp_all

lemma pushPages_indices:
  "map originalPageIndex (pushPages fileId n 0 newPages) =
     map originalPageIndex newPages @ map int [1..<Suc n]"
  by (simp only: pushPages_eq map_append map_map comp_def PageInProcessing.simps indices_from_one)

lemma loadLoop_result:
  "loadLoop load now k fs (L, P, e) = (L', P', e') \<Longrightarrow>
   map file_l L' = map file_l L @ filter (\<lambda>f. load (data_f f) \<noteq> None) fs \<and>
   map originalPageIndex P' =
     map originalPageIndex P @ concat (map (\<lambda>f. map int [1..<Suc (pagesIn load f)]) fs)"
proof (induction fs arbitrary: k L P e)
  case Nil
  then show ?case by simp
next
  case (Cons f fs)
  show ?case
  proof (cases "load (data_f f)")
    case None
    with Cons.prems have "loadLoop load now (Suc k) fs (L, P, Some (couldNotProcess f)) = (L', P', e')"
      by simp
    from Cons.IH [OF this] None show ?thesis by (simp add: pagesIn_def)
  next
    case (Some doc)
    with Cons.prems have "loadLoop load now (Suc k) fs
        (L @ [\<lparr>id_l = fileIdOf f (now k), file_l = f, pageCount = length doc\<rparr>],
         pushPages (fileIdOf f (now k)) (length doc) 0 P, e) = (L', P', e')"
      by simp
    from Cons.IH [OF this] Some show ?thesis
      by (simp add: pagesIn_def pushPages_indices del: upt_Suc pushPages.simps)
  qed
qed

text \<open>
  C9. Loading a batch skips exactly the files whose name is the name of a file loaded
  before the batch: the loaded files afterwards are the old ones followed by every
  accepted file with a new name that parses, in batch order, whether or not two files
  of the batch share a name; and every accepted file with a new name contributes its
  pages, numbered from 1, to the end of the working set.
\<close>

theorem handleFilesAccepted_no_dedup_within_batch:
  "map file_l (loadedFiles (handleFilesAccepted load now st acceptedFiles)) =
     map file_l (loadedFiles st) @
     filter (\<lambda>f. name_f f \<notin> set (map (\<lambda>l. name_f (file_l l)) (loadedFiles st))
                  \<and> load (data_f f) \<noteq> None) acceptedFiles
   \<and> map originalPageIndex (pages (handleFilesAccepted load now st acceptedFiles)) =
     map originalPageIndex (pages st) @
     concat (map (\<lambda>f. map int [1..<Suc (pagesIn load f)])
               (filter (\<lambda>f. name_f f \<notin> set (map (\<lambda>l. name_f (file_l l)) (loadedFiles st)))
                  acceptedFiles))"
proof -
  let ?new = "filter (\<lambda>f. name_f f \<notin> set (map (\<lambda>l. name_f (file_l l)) (loadedFiles st))) acceptedFiles"
  have ff: "filter (\<lambda>f. load (data_f f) \<noteq> None) ?new =
      filter (\<lambda>f. name_f f \<notin> set (map (\<lambda>l. name_f (file_l l)) (loadedFiles st))
                  \<and> load (data_f f) \<noteq> None) acceptedFiles"
    by (simp add: conj_commute)
  show ?thesis
  proof (cases "?new = []")
    case True
    then show ?thesis
      using ff by (simp add: handleFilesAccepted_def Let_def)
  next
    case False
    obtain L' P' e' where r: "loadLoop load now 0 ?new (loadedFiles st, pages st, None) = (L', P', e')"
      by (cases "loadLoop load now 0 ?new (loadedFiles st, pages st, None)") auto
    from loadLoop_result [OF r] False r ff show ?thesis
      by (simp add: handleFilesAccepted_def Let_def)
  qed
qed

theorem handleFilesAccepted_no_dedup_within_batch_witness:
  "name_f (ex_same_name ! 0) = name_f (ex_same_name ! 1)
   \<and> map file_l (loadedFiles (handleFilesAccepted ex_load (\<lambda>k. 100 + k) ex_empty ex_same_name)) =
       ex_same_name
   \<and> map originalPageIndex (pages (handleFilesAccepted ex_load (\<lambda>k. 100 + k) ex_empty ex_same_name)) =
       [1, 2, 3, 1, 2]
   \<and> map file_l (loadedFiles (handleFilesAccepted ex_load (\<lambda>k. 100 + k) (ex_merger []) ex_same_name)) =
       map file_l ex_files"
  using handleFilesAccepted_no_dedup_within_batch [of ex_load "\<lambda>k. 100 + k" ex_empty ex_same_name]
    handleFilesAccepted_no_dedup_within_batch [of ex_load "\<lambda>k. 100 + k" "ex_merger []" ex_same_name]
  by (simp add: ex_empty_def ex_same_name_def ex_load_def pagesIn_def ex_merger_def ex_files_def
        upt_conv_Cons)

text \<open>
  The ids the merger creates are never inherited property names, so every reference
  of a working set built by loading has a plain key.
\<close>

lemma digit_mem: "d < 10 \<Longrightarrow> digit d \<in> set ''0123456789''"
  unfolding digit_def by (rule nth_mem) simp

lemma show_nat_last: "show_nat n \<noteq> [] \<and> last (show_nat n) \<in> set ''0123456789''"
proof (cases "n < 10")
  case True
  then have "show_nat n = [digit n]" by (subst show_nat.simps) simp
  with digit_mem [OF True] show ?thesis by (simp del: show_nat.simps)
next
  case False
  then have "show_nat n = show_nat (n div 10) @ [digit (n mod 10)]"
    by (subst show_nat.simps) simp
  moreover have "digit (n mod 10) \<in> set ''0123456789''" by (rule digit_mem) simp
  ultimately show ?thesis by (simp del: show_nat.simps)
qed

lemma fileIdOf_plain: "fileIdOf file t \<notin> set objectPrototypeKeys"
proof
  assume a: "fileIdOf file t \<in> set objectPrototypeKeys"
  have "last (fileIdOf file t) = last (show_nat t)"
    using show_nat_last [of t] by (simp add: fileIdOf_def del: show_nat.simps)
  with show_nat_last [of t] have "last (fileIdOf file t) \<in> set ''0123456789''" by simp
  moreover have "\<forall>k \<in> set objectPrototypeKeys. last k \<notin> set ''0123456789''"
    by (simp add: objectPrototypeKeys_def)
  ultimately show False using a by blast
qed

lemma loadLoop_plain:
  "loadLoop load now k fs (L, P, e) = (L', P', e') \<Longrightarrow> \<forall>p \<in> set P. plain_key p \<Longrightarrow>
   \<forall>p \<in> set P'. plain_key p"
proof (induction fs arbitrary: k L P e)
  case Nil
  then show ?case by simp
next
  case (Cons f fs)
  show ?case
  proof (cases "load (data_f f)")
    case None
    with Cons.prems(1) have "loadLoop load now (Suc k) fs (L, P, Some (couldNotProcess f)) = (L', P', e')"
      by simp
    from Cons.IH [OF this Cons.prems(2)] show ?thesis .
  next
    case (Some doc)
    with Cons.prems(1) have l: "loadLoop load now (Suc k) fs
        (L @ [\<lparr>id_l = fileIdOf f (now k), file_l = f, pageCount = length doc\<rparr>],
         pushPages (fileIdOf f (now k)) (length doc) 0 P, e) = (L', P', e')"
      by simp
    have "\<forall>p \<in> set (pushPages (fileIdOf f (now k)) (length doc) 0 P). plain_key p"
      using Cons.prems(2) fileIdOf_plain [of f "now k"]
      by (auto simp: pushPages_eq plain_key_def simp del: pushPages.simps)
    from Cons.IH [OF l this] show ?thesis .
  qed
qed

lemma handleFilesAccepted_plain_keys:
  assumes "\<forall>p \<in> set (pages st). plain_key p"
  shows "\<forall>p \<in> set (pages (handleFilesAccepted load now st acceptedFiles)). plain_key p"
proof -
  let ?new = "filter (\<lambda>f. name_f f \<notin> set (map (\<lambda>l. name_f (file_l l)) (loadedFiles st))) acceptedFiles"
  show ?thesis
  proof (cases "?new = []")
    case True
    with assms show ?thesis by (simp add: handleFilesAccepted_def Let_def)
  next
    case False
    obtain L' P' e' where r: "loadLoop load now 0 ?new (loadedFiles st, pages st, None) = (L', P', e')"
      by (cases "loadLoop load now 0 ?new (loadedFiles st, pages st, None)") auto
    from loadLoop_plain [OF r assms] False r show ?thesis
      by (simp add: handleFilesAccepted_def Let_def)
  qed
qed

section \<open>Properties of the rasterising build\<close>

declare compressLoop.simps [simp del]

lemma compressPage_None:
  assumes "compressPage eng settings doc n i acc = (acc1, None)"
  shows "\<exists>out. raster_at eng settings doc i out \<and> newPdfDoc acc1 = newPdfDoc acc @ [out] \<and>
           trace acc1 = trace acc @ page_events n i"
  using assms
  by (auto simp: compressPage_def Let_def raster_at_def is_raster_of_def page_events_def
      split: option.splits if_splits)

lemma compressPage_Some:
  assumes "compressPage eng settings doc n i acc = (acc1, Some e)"
  shows "newPdfDoc acc1 = newPdfDoc acc"
    and "trace acc1 = trace acc @ [SetProgress (Processing i n)]"
    and "\<not> raster_at eng settings doc i out"
  using assms
  by (auto simp: compressPage_def Let_def raster_at_def is_raster_of_def
      split: option.splits if_splits)

lemma compressLoop_pages:
  "compressLoop eng settings doc n i acc = (acc', r) \<Longrightarrow>
   1 \<le> i \<Longrightarrow> i \<le> Suc n \<Longrightarrow> length (newPdfDoc acc) = i - 1 \<Longrightarrow>
   (\<And>k. k < length (newPdfDoc acc) \<Longrightarrow> raster_at eng settings doc (Suc k) (newPdfDoc acc ! k)) \<Longrightarrow>
   (\<forall>k < length (newPdfDoc acc'). raster_at eng settings doc (Suc k) (newPdfDoc acc' ! k))
   \<and> length (newPdfDoc acc') \<le> n
   \<and> (r = None \<longrightarrow> length (newPdfDoc acc') = n)
   \<and> (r \<noteq> None \<longrightarrow> length (newPdfDoc acc') < n \<and>
         (\<forall>out. \<not> raster_at eng settings doc (Suc (length (newPdfDoc acc'))) out))"
proof (induction eng settings doc n i acc arbitrary: acc' r rule: compressLoop.induct)
  case (1 eng settings doc n i acc)
  show ?case
  proof (cases "i \<le> n")
    case False
    with "1.prems" have "acc' = acc" "r = None" "i = Suc n"
      by (simp_all add: compressLoop.simps)
    with "1.prems" show ?thesis by simp
  next
    case True
    obtain acc1 r1 where p: "compressPage eng settings doc n i acc = (acc1, r1)"
      by (cases "compressPage eng settings doc n i acc")
    show ?thesis
    proof (cases r1)
      case (Some e)
      with p True "1.prems"(1) have a: "acc' = acc1" "r = Some e"
        by (simp_all add: compressLoop.simps)
      from p Some have pe: "compressPage eng settings doc n i acc = (acc1, Some e)" by simp
      note c = compressPage_Some [OF pe]
      from c(1) "1.prems"(2,4) have s: "Suc (length (newPdfDoc acc1)) = i" by simp
      have "\<forall>out. \<not> raster_at eng settings doc (Suc (length (newPdfDoc acc1))) out"
        unfolding s using c(3) by blast
      moreover from s True have "length (newPdfDoc acc1) < n" by simp
      ultimately show ?thesis
        using a c(1) "1.prems"(5) by simp
    next
      case None
      with p True "1.prems"(1) have l: "compressLoop eng settings doc n (Suc i) acc1 = (acc', r)"
        by (simp add: compressLoop.simps)
      from p None have "compressPage eng settings doc n i acc = (acc1, None)" by simp
      from compressPage_None [OF this] obtain out where
        o: "raster_at eng settings doc i out" "newPdfDoc acc1 = newPdfDoc acc @ [out]" by blast
      have len: "length (newPdfDoc acc1) = Suc i - 1"
        using o(2) "1.prems"(2,4) by simp
      have good: "raster_at eng settings doc (Suc k) (newPdfDoc acc1 ! k)"
        if "k < length (newPdfDoc acc1)" for k
      proof (cases "k < length (newPdfDoc acc)")
        case True
        with "1.prems"(5) o(2) show ?thesis by (simp add: nth_append)
      next
        case False
        with that o(2) have k: "k = length (newPdfDoc acc)" by simp
        then have "newPdfDoc acc1 ! k = out" using o(2) by simp
        moreover from k "1.prems"(2,4) have "Suc k = i" by simp
        ultimately show ?thesis using o(1) by simp
      qed
      show ?thesis
        using "1.IH" [OF True p [symmetric] None l _ _ len good] True by simp
    qed
  qed
qed




lemma compressBuild_pages:
  assumes "compressBuild eng st doc = (acc, r)"
  shows "\<forall>k < length (newPdfDoc acc).
           raster_at eng (at_index COMPRESSION_LEVELS (compressionLevel st)) doc (Suc k)
             (newPdfDoc acc ! k)"
    and "length (newPdfDoc acc) \<le> numPages eng doc"
    and "r = None \<longrightarrow> length (newPdfDoc acc) = numPages eng doc"
    and "r \<noteq> None \<longrightarrow> length (newPdfDoc acc) < numPages eng doc \<and>
           (\<forall>out. \<not> raster_at eng (at_index COMPRESSION_LEVELS (compressionLevel st)) doc
                      (Suc (length (newPdfDoc acc))) out)"
  using compressLoop_pages [of eng "at_index COMPRESSION_LEVELS (compressionLevel st)" doc
      "numPages eng doc" 1 "\<lparr>newPdfDoc = [], trace = [SetProgress Preparing]\<rparr>" acc r] assms
  by (simp_all add: compressBuild_def)

lemma raster_atD:
  assumes "raster_at eng settings doc i out"
  shows "\<exists>s page painted jpgImage.
           settings = Some s \<and> getPage eng doc i = Some page \<and>
           hasContext eng
             (createCanvas eng (height_v (getViewport eng page (1.5 * scale s)))
                               (width_v (getViewport eng page (1.5 * scale s)))) \<and>
           render eng page
             (createCanvas eng (height_v (getViewport eng page (1.5 * scale s)))
                               (width_v (getViewport eng page (1.5 * scale s))))
             (getViewport eng page (1.5 * scale s)) = Some painted \<and>
           embedJpg eng (toDataURL eng painted ''image/jpeg'' (quality s)) = Some jpgImage \<and>
           out = \<lparr>width_o = width_v (getViewport eng page (1.5 * scale s)),
                  height_o = height_v (getViewport eng page (1.5 * scale s)),
                  drawn = [\<lparr>image_d = jpgImage, x_d = 0, y_d = 0,
                            width_d = width_v (getViewport eng page (1.5 * scale s)),
                            height_d = height_v (getViewport eng page (1.5 * scale s))\<rparr>]\<rparr>"
  using assms
  by (auto simp: raster_at_def is_raster_of_def Let_def split: option.splits)

text \<open>
  C2. The rasterising build gives one output page for each source page it processes,
  in order: when the loop completes there are as many output pages as source pages;
  when it is stopped by an exception, the output holds the pages before the failing
  one, and a step of the failing page did fail. Every output page comes from the
  source page of the same number as follows: the viewport is taken at 1.5 times the
  scale of the selected profile, the page is rendered into a canvas of the viewport's
  size, the canvas is encoded as \<open>image/jpeg\<close> at the profile's quality, and the
  output page has the viewport's width and height and carries exactly that image,
  drawn at (0, 0) with the viewport's width and height.
\<close>

theorem compressBuild_rasterizes:
  assumes "compressBuild eng st doc = (acc, r)"
  shows "length (newPdfDoc acc) \<le> numPages eng doc
       \<and> (r = None \<longrightarrow> length (newPdfDoc acc) = numPages eng doc)
       \<and> (r \<noteq> None \<longrightarrow>
            length (newPdfDoc acc) < numPages eng doc \<and>
            (\<forall>out. \<not> raster_at eng (at_index COMPRESSION_LEVELS (compressionLevel st)) doc
                       (Suc (length (newPdfDoc acc))) out))
       \<and> (\<forall>k < length (newPdfDoc acc).
            \<exists>s page painted jpgImage.
              at_index COMPRESSION_LEVELS (compressionLevel st) = Some s \<and>
              getPage eng doc (Suc k) = Some page \<and>
              hasContext eng
                (createCanvas eng (height_v (getViewport eng page (1.5 * scale s)))
                                  (width_v (getViewport eng page (1.5 * scale s)))) \<and>
              render eng page
                (createCanvas eng (height_v (getViewport eng page (1.5 * scale s)))
                                  (width_v (getViewport eng page (1.5 * scale s))))
                (getViewport eng page (1.5 * scale s)) = Some painted \<and>
              embedJpg eng (toDataURL eng painted ''image/jpeg'' (quality s)) = Some jpgImage \<and>
              newPdfDoc acc ! k =
                \<lparr>width_o = width_v (getViewport eng page (1.5 * scale s)),
                 height_o = height_v (getViewport eng page (1.5 * scale s)),
                 drawn = [\<lparr>image_d = jpgImage, x_d = 0, y_d = 0,
                           width_d = width_v (getViewport eng page (1.5 * scale s)),
                           height_d = height_v (getViewport eng page (1.5 * scale s))\<rparr>]\<rparr>)"
proof -
  note p = compressBuild_pages [OF assms]
  have "\<forall>k < length (newPdfDoc acc).
            \<exists>s page painted jpgImage.
              at_index COMPRESSION_LEVELS (compressionLevel st) = Some s \<and>
              getPage eng doc (Suc k) = Some page \<and>
              hasContext eng
                (createCanvas eng (height_v (getViewport eng page (1.5 * scale s)))
                                  (width_v (getViewport eng page (1.5 * scale s)))) \<and>
              render eng page
                (createCanvas eng (height_v (getViewport eng page (1.5 * scale s)))
                                  (width_v (getViewport eng page (1.5 * scale s))))
                (getViewport eng page (1.5 * scale s)) = Some painted \<and>
              embedJpg eng (toDataURL eng painted ''image/jpeg'' (quality s)) = Some jpgImage \<and>
              newPdfDoc acc ! k =
                \<lparr>width_o = width_v (getViewport eng page (1.5 * scale s)),
                 height_o = height_v (getViewport eng page (1.5 * scale s)),
                 drawn = [\<lparr>image_d = jpgImage, x_d = 0, y_d = 0,
                           width_d = width_v (getViewport eng page (1.5 * scale s)),
                           height_d = height_v (getViewport eng page (1.5 * scale s))\<rparr>]\<rparr>"
  proof (intro allI impI)
    fix k assume "k < length (newPdfDoc acc)"
    with p(1) have "raster_at eng (at_index COMPRESSION_LEVELS (compressionLevel st)) doc (Suc k)
          (newPdfDoc acc ! k)" by simp
    from raster_atD [OF this] show "\<exists>s page painted jpgImage.
              at_index COMPRESSION_LEVELS (compressionLevel st) = Some s \<and>
              getPage eng doc (Suc k) = Some page \<and>
              hasContext eng
                (createCanvas eng (height_v (getViewport eng page (1.5 * scale s)))
                                  (width_v (getViewport eng page (1.5 * scale s)))) \<and>
              render eng page
                (createCanvas eng (height_v (getViewport eng page (1.5 * scale s)))
                                  (width_v (getViewport eng page (1.5 * scale s))))
                (getViewport eng page (1.5 * scale s)) = Some painted \<and>
              embedJpg eng (toDataURL eng painted ''image/jpeg'' (quality s)) = Some jpgImage \<and>
              newPdfDoc acc ! k =
                \<lparr>width_o = width_v (getViewport eng page (1.5 * scale s)),
                 height_o = height_v (getViewport eng page (1.5 * scale s)),
                 drawn = [\<lparr>image_d = jpgImage, x_d = 0, y_d = 0,
                           width_d = width_v (getViewport eng page (1.5 * scale s)),
                           height_d = height_v (getViewport eng page (1.5 * scale s))\<rparr>]\<rparr>" .
  qed
  with p(2,3,4) show ?thesis by blast
qed

lemmas compress_defs = handleCompress_def compressBuild_def compressPage_def compressLoop.simps
  at_index_def COMPRESSION_LEVELS_def ex_engine_def ex_compressor_def digit_def size_f_def
  reductionOf_def compressFailed_def

theorem compressBuild_rasterizes_witness:
  "compressBuild ex_engine (ex_compressor 3) 3 =
     (\<lparr>newPdfDoc =
         [\<lparr>width_o = 810, height_o = 1080,
           drawn = [\<lparr>image_d = ''image/jpeg:1'', x_d = 0, y_d = 0,
                     width_d = 810, height_d = 1080\<rparr>]\<rparr>,
          \<lparr>width_o = 810, height_o = 1080,
           drawn = [\<lparr>image_d = ''image/jpeg:2'', x_d = 0, y_d = 0,
                     width_d = 810, height_d = 1080\<rparr>]\<rparr>,
          \<lparr>width_o = 810, height_o = 1080,
           drawn = [\<lparr>image_d = ''image/jpeg:3'', x_d = 0, y_d = 0,
                     width_d = 810, height_d = 1080\<rparr>]\<rparr>],
        trace = [SetProgress Preparing, SetProgress (Processing 1 3), PageAppended 1,
                 SetProgress (Processing 2 3), PageAppended 2,
                 SetProgress (Processing 3 3), PageAppended 3]\<rparr>, None)
   \<and> numPages ex_engine 3 = 3
   \<and> getViewport ex_engine 1 (1.5 * scale (COMPRESSION_LEVELS ! 0)) =
        \<lparr>width_v = 810, height_v = 1080\<rparr>
   \<and> quality (COMPRESSION_LEVELS ! 0) = 0.7
   \<and> compressBuild (ex_engine\<lparr>render := (\<lambda>page canvas viewport. None)\<rparr>) (ex_compressor 2) 2 =
       (\<lparr>newPdfDoc = [], trace = [SetProgress Preparing, SetProgress (Processing 1 2)]\<rparr>,
        Some RenderError)"
proof -
  have b: "compressBuild ex_engine (ex_compressor 3) 3 =
     (\<lparr>newPdfDoc =
         [\<lparr>width_o = 810, height_o = 1080,
           drawn = [\<lparr>image_d = ''image/jpeg:1'', x_d = 0, y_d = 0,
                     width_d = 810, height_d = 1080\<rparr>]\<rparr>,
          \<lparr>width_o = 810, height_o = 1080,
           drawn = [\<lparr>image_d = ''image/jpeg:2'', x_d = 0, y_d = 0,
                     width_d = 810, height_d = 1080\<rparr>]\<rparr>,
          \<lparr>width_o = 810, height_o = 1080,
           drawn = [\<lparr>image_d = ''image/jpeg:3'', x_d = 0, y_d = 0,
                     width_d = 810, height_d = 1080\<rparr>]\<rparr>],
        trace = [SetProgress Preparing, SetProgress (Processing 1 3), PageAppended 1,
                 SetProgress (Processing 2 3), PageAppended 2,
                 SetProgress (Processing 3 3), PageAppended 3]\<rparr>, None)"
    by (simp add: compress_defs)
  have c: "compressBuild (ex_engine\<lparr>render := (\<lambda>page canvas viewport. None)\<rparr>) (ex_compressor 2) 2 =
       (\<lparr>newPdfDoc = [], trace = [SetProgress Preparing, SetProgress (Processing 1 2)]\<rparr>,
        Some RenderError)"
    by (simp add: compress_defs)
  from compressBuild_rasterizes [OF b] compressBuild_rasterizes [OF c] b c show ?thesis
    by (simp add: compress_defs)
qed




section \<open>Empty input, and the report of a compression\<close>

text \<open>
  C5, amended. For the empty working set the merge handler and the split handler set
  their error message and trigger no download (the split handler also when no file is
  loaded). The compressor has no working set: with no file chosen its handler returns
  at once, with no effect, no output and no error message.
\<close>

theorem empty_working_set_no_output:
  "(pages st = [] \<longrightarrow>
      handleMerge load save st = (st\<lparr>error := Some noPagesToMerge\<rparr>, None))
   \<and> (pages_s ss = [] \<or> loadedFile ss = None \<longrightarrow>
      handleCreatePdf load' save' ss = (ss\<lparr>error_s := Some noPagesToCreate\<rparr>, None))
   \<and> (file_c cs = None \<longrightarrow> handleCompress eng cs = (cs, []))"
  by (auto simp: handleMerge_def handleCreatePdf_def handleCompress_def split: option.splits)

theorem empty_working_set_no_output_witness:
  "pages (ex_merger []) = []
   \<and> handleMerge ex_load ex_save (ex_merger []) =
       (ex_merger []\<lparr>error := Some ''No pages to merge. Please add some PDF files.''\<rparr>, None)
   \<and> pages_s (ex_splitter []) = []
   \<and> handleCreatePdf ex_load ex_save (ex_splitter []) =
       (ex_splitter []\<lparr>error_s := Some ''No pages to create a PDF from.''\<rparr>, None)
   \<and> file_c (ex_compressor 0\<lparr>file_c := None\<rparr>) = None
   \<and> handleCompress ex_engine (ex_compressor 0\<lparr>file_c := None\<rparr>) =
       (ex_compressor 0\<lparr>file_c := None\<rparr>, [])"
  using empty_working_set_no_output [of "ex_merger []" ex_load ex_save "ex_splitter []"
      ex_load ex_save "ex_compressor 0\<lparr>file_c := None\<rparr>" ex_engine]
  by (simp add: ex_merger_def ex_splitter_def ex_compressor_def noPagesToMerge_def
        noPagesToCreate_def)

text \<open>
  C5, as stated, fails for the rasterising build: a document of zero pages is not
  rejected, the loop runs zero times, the empty document is serialised and the run
  reports success with a result; and with no file chosen no error is reported at all.
\<close>

theorem compress_zero_pages_succeeds:
  "numPages ex_engine 0 = 0
   \<and> getDocument ex_engine (data_f \<lparr>name_f = ''a'', data_f = [0]\<rparr>) = Some 0
   \<and> handleCompress ex_engine (ex_compressor 0) =
       (ex_compressor 0
          \<lparr>result_c := Some \<lparr>originalSize = 1, compressedSize = 1, reduction = Num 0,
                             fileName = ''compressed-a'', data_r = [7]\<rparr>\<rparr>,
        [SetProgress Preparing, SetProgress Finishing, SetProgress Cleared])
   \<and> error_c (fst (handleCompress ex_engine (ex_compressor 0))) = None
   \<and> showsSuccess (fst (handleCompress ex_engine (ex_compressor 0)))
   \<and> error_c (fst (handleCompress ex_engine (ex_compressor 0\<lparr>file_c := None\<rparr>))) = None"
  by (simp add: compress_defs showsSuccess_def)

text \<open>
  C10. A compression run that reaches serialisation and serialises successfully sets a
  result and no error, and the success panel is shown, whatever the sizes are. The
  reduction is \<open>(originalSize - compressedSize) / originalSize * 100\<close> (for a
  non-empty input file), and it is negative whenever the output is larger than the
  input. The arithmetic is that of the reals; the rounding of JavaScript's numbers
  does not change the sign.
\<close>

theorem handleCompress_reports_success:
  assumes "file_c st = Some f" and "getDocument eng (data_f f) = Some doc"
    and "compressBuild eng st doc = (acc, None)"
    and "save_e eng (newPdfDoc acc) = Some compressedBytes"
  shows "result_c (fst (handleCompress eng st)) =
           Some \<lparr>originalSize = size_f f, compressedSize = length compressedBytes,
                  reduction = reductionOf (size_f f) (length compressedBytes),
                  fileName = ''compressed-'' @ name_f f, data_r = compressedBytes\<rparr>
         \<and> error_c (fst (handleCompress eng st)) = None
         \<and> showsSuccess (fst (handleCompress eng st))
         \<and> (0 < size_f f \<longrightarrow>
              reductionOf (size_f f) (length compressedBytes) =
                Num ((real (size_f f) - real (length compressedBytes)) / real (size_f f) * 100))
         \<and> (size_f f < length compressedBytes \<longrightarrow>
              negative (reductionOf (size_f f) (length compressedBytes)))"
proof -
  have n: "negative (reductionOf a b)" if "a < b" for a b :: nat
    using that by (simp add: reductionOf_def mult_less_0_iff divide_less_0_iff)
  show ?thesis
    using assms n [of "size_f f" "length compressedBytes"]
    by (simp add: handleCompress_def showsSuccess_def reductionOf_def)
qed

theorem handleCompress_reports_success_witness:
  "handleCompress ex_engine (ex_compressor 2) =
     (ex_compressor 2
        \<lparr>result_c := Some \<lparr>originalSize = 1, compressedSize = 7, reduction = Num (- 600),
                           fileName = ''compressed-a'', data_r = [7, 1, 2, 3, 1, 2, 3]\<rparr>\<rparr>,
      [SetProgress Preparing, SetProgress (Processing 1 2), PageAppended 1,
       SetProgress (Processing 2 2), PageAppended 2, SetProgress Finishing, SetProgress Cleared])
   \<and> negative (Num (- 600))
   \<and> showsSuccess (fst (handleCompress ex_engine (ex_compressor 2)))"
proof -
  have f: "file_c (ex_compressor 2) = Some \<lparr>name_f = ''a'', data_f = [2]\<rparr>"
    by (simp add: ex_compressor_def)
  have d: "getDocument ex_engine (data_f \<lparr>name_f = ''a'', data_f = [2]\<rparr>) = Some 2"
    by (simp add: ex_engine_def)
  obtain acc where b: "compressBuild ex_engine (ex_compressor 2) 2 = (acc, None)"
    and a: "newPdfDoc acc =
         [\<lparr>width_o = 810, height_o = 1080,
           drawn = [\<lparr>image_d = ''image/jpeg:1'', x_d = 0, y_d = 0,
                     width_d = 810, height_d = 1080\<rparr>]\<rparr>,
          \<lparr>width_o = 810, height_o = 1080,
           drawn = [\<lparr>image_d = ''image/jpeg:2'', x_d = 0, y_d = 0,
                     width_d = 810, height_d = 1080\<rparr>]\<rparr>]"
    by (simp add: compress_defs)
  have s: "save_e ex_engine (newPdfDoc acc) = Some [7, 1, 2, 3, 1, 2, 3]"
    by (simp add: a ex_engine_def)
  from handleCompress_reports_success [OF f d b s] show ?thesis
    by (simp add: compress_defs)
qed

end
